theory Spec2Isabelle
  imports Complex_Main "HOL-Library.Sublist"
begin

section \<open>JavaScript values\<close>

text \<open>
  The regional \<open>predict-weather\<close> function (the second \<open>serve\<close> handler of the
  source, with its helpers \<open>calculateStdDev\<close>, \<open>calculateTrend\<close> and
  \<open>fetchLocationData\<close>) is embedded below.

  A JavaScript number is a finite value, \<open>NaN\<close> or an infinity. In the handler's
  statistics finite values are taken as exact reals: the rounding error and the
  overflow of binary64 arithmetic, and the sign of zero, are not part of that model.
  The numbers of an upstream JSON payload are finite, so the samples are lists of
  reals; \<open>jsnum\<close> is used where the handler's own arithmetic can leave the finite
  range. \<open>calculateTrend\<close> is embedded in binary64 arithmetic, with rounding to
  nearest and overflow; \<open>calculateTrend_exact\<close> is the same function read over the
  reals, as the result object takes it.
\<close>

datatype jsnum = Fin real | NaN | PosInf | NegInf

fun js_neg :: "jsnum \<Rightarrow> jsnum" where
  "js_neg (Fin a) = Fin (- a)"
| "js_neg NaN = NaN"
| "js_neg PosInf = NegInf"
| "js_neg NegInf = PosInf"

fun js_add :: "jsnum \<Rightarrow> jsnum \<Rightarrow> jsnum" where
  "js_add (Fin a) (Fin b) = Fin (a + b)"
| "js_add NaN _ = NaN"
| "js_add _ NaN = NaN"
| "js_add PosInf NegInf = NaN"
| "js_add NegInf PosInf = NaN"
| "js_add PosInf _ = PosInf"
| "js_add _ PosInf = PosInf"
| "js_add NegInf _ = NegInf"
| "js_add _ NegInf = NegInf"

definition js_sub :: "jsnum \<Rightarrow> jsnum \<Rightarrow> jsnum" where
  "js_sub a b = js_add a (js_neg b)"

definition js_sign_inf :: "bool \<Rightarrow> jsnum" where
  "js_sign_inf positive = (if positive then PosInf else NegInf)"

fun js_mul :: "jsnum \<Rightarrow> jsnum \<Rightarrow> jsnum" where
  "js_mul (Fin a) (Fin b) = Fin (a * b)"
| "js_mul NaN _ = NaN"
| "js_mul _ NaN = NaN"
| "js_mul (Fin a) PosInf = (if a = 0 then NaN else js_sign_inf (0 < a))"
| "js_mul (Fin a) NegInf = (if a = 0 then NaN else js_sign_inf (a < 0))"
| "js_mul PosInf (Fin b) = (if b = 0 then NaN else js_sign_inf (0 < b))"
| "js_mul NegInf (Fin b) = (if b = 0 then NaN else js_sign_inf (b < 0))"
| "js_mul PosInf PosInf = PosInf"
| "js_mul NegInf NegInf = PosInf"
| "js_mul PosInf NegInf = NegInf"
| "js_mul NegInf PosInf = NegInf"

fun js_div :: "jsnum \<Rightarrow> jsnum \<Rightarrow> jsnum" where
  "js_div (Fin a) (Fin b) =
     (if b \<noteq> 0 then Fin (a / b)
      else if a = 0 then NaN
      else js_sign_inf (0 < a))"
| "js_div NaN _ = NaN"
| "js_div _ NaN = NaN"
| "js_div (Fin a) _ = Fin 0"
| "js_div PosInf (Fin b) = js_sign_inf (0 \<le> b)"
| "js_div NegInf (Fin b) = js_sign_inf (b < 0)"
| "js_div _ _ = NaN"

text \<open>\<open>Math.round\<close>: the nearest integer, a tie going up.\<close>

definition Math_round :: "real \<Rightarrow> real" where
  "Math_round x = of_int \<lfloor>x + 1 / 2\<rfloor>"

fun js_round :: "jsnum \<Rightarrow> jsnum" where
  "js_round (Fin a) = Fin (Math_round a)"
| "js_round x = x"

text \<open>
  A field of the request body after \<open>req.json()\<close>. Arrays and objects in the place
  of \<open>lat\<close>, \<open>lon\<close> or \<open>date\<close> are left out.
\<close>

datatype jsval = JUndefined | JNull | JBool bool | JNum jsnum | JStr string

subsection \<open>Decimal strings\<close>

definition digit_char :: "nat \<Rightarrow> char" where
  "digit_char n = ''0123456789'' ! (n mod 10)"

fun show_nat :: "nat \<Rightarrow> string" where
  "show_nat n = (if n < 10 then [digit_char n] else show_nat (n div 10) @ [digit_char (n mod 10)])"

declare show_nat.simps [simp del]

definition show_int :: "int \<Rightarrow> string" where
  "show_int i = (if i < 0 then CHR ''-'' # show_nat (nat (- i)) else show_nat (nat i))"

definition padStart :: "nat \<Rightarrow> char \<Rightarrow> string \<Rightarrow> string" where
  "padStart n c s = replicate (n - length s) c @ s"

text \<open>
  \<open>toString\<close> of a \<open>getMonth() + 1\<close> or \<open>getDate()\<close> value: a natural number, or
  \<open>NaN\<close> (here \<open>None\<close>) on an invalid date.
\<close>

definition toString :: "nat option \<Rightarrow> string" where
  "toString v = (case v of None \<Rightarrow> ''NaN'' | Some n \<Rightarrow> show_nat n)"

section \<open>Helpers of the regional function\<close>

text \<open>\<open>values.reduce((a, b) => a + b, 0)\<close>\<close>

definition reduce_sum :: "real list \<Rightarrow> real" where
  "reduce_sum vs = foldl (\<lambda>a b. a + b) 0 vs"

definition calculateStdDev :: "real list \<Rightarrow> real \<Rightarrow> real" where
  "calculateStdDev vs mean =
     (if length vs = 0 then 0
      else
        let squaredDiffs = map (\<lambda>v. (v - mean) ^ 2) vs;
            variance = reduce_sum squaredDiffs / real (length vs)
        in sqrt variance)"

text \<open>
  \<open>calculateTrend\<close> read over the reals. \<open>trend_step_exact\<close> is the body of its
  \<open>for\<close> loop, on the pair \<open>(numerator, denominator)\<close>. The loop reads
  \<open>indices[i]\<close> and \<open>values[i]\<close> only for \<open>i < n\<close>, the length of both arrays.
\<close>

definition trend_step_exact :: "real list \<Rightarrow> real list \<Rightarrow> real \<Rightarrow> real \<Rightarrow> real \<times> real \<Rightarrow> nat \<Rightarrow> real \<times> real" where
  "trend_step_exact indices vs meanX meanY acc i =
     (fst acc + (indices ! i - meanX) * (vs ! i - meanY),
      snd acc + (indices ! i - meanX) ^ 2)"

definition calculateTrend_exact :: "real list \<Rightarrow> real" where
  "calculateTrend_exact vs =
     (if length vs < 2 then 0
      else
        let n = length vs;
            indices = map real [0..<n];
            meanX = reduce_sum indices / real n;
            meanY = reduce_sum vs / real n;
            acc = foldl (trend_step_exact indices vs meanX meanY) (0, 0) [0..<n];
            numerator = fst acc;
            denominator = snd acc
        in if denominator \<noteq> 0 then numerator / denominator else 0)"

subsection \<open>The trend in binary64 arithmetic\<close>

text \<open>
  \<open>binary64 x\<close> is the JavaScript number that an arithmetic operation with the exact
  result \<open>x\<close> returns: \<open>x\<close> rounded to the nearest multiple of the unit in the last
  place of its binade (53 significant bits, the exponent of the unit no less than
  \<open>-1074\<close>), a tie going to the even multiple, and an infinity when the rounded value
  reaches \<open>2 ^ 1024\<close>. The sign of a zero is not modelled. A real is representable
  when rounding leaves it as it is.
\<close>

definition round_half_even :: "real \<Rightarrow> int" where
  "round_half_even y =
     (let f = \<lfloor>y\<rfloor>; r = y - of_int f
      in if r < 1 / 2 then f else if 1 / 2 < r then f + 1 else if even f then f else f + 1)"

definition ulp_exponent :: "real \<Rightarrow> int" where
  "ulp_exponent x = max (\<lfloor>log 2 \<bar>x\<bar>\<rfloor> - 52) (- 1074)"

definition binary64 :: "real \<Rightarrow> jsnum" where
  "binary64 x =
     (if x = 0 then Fin 0
      else
        let u = 2 powi ulp_exponent x;
            r = of_int (round_half_even (x / u)) * u
        in if 2 ^ 1024 \<le> \<bar>r\<bar> then js_sign_inf (0 < x) else Fin r)"

definition representable :: "real \<Rightarrow> bool" where
  "representable x = (binary64 x = Fin x)"

text \<open>
  The four operations: the rounded exact result on finite operands, and the rules of
  \<open>NaN\<close> and the infinities otherwise.
\<close>

fun fl_add :: "jsnum \<Rightarrow> jsnum \<Rightarrow> jsnum" where
  "fl_add (Fin a) (Fin b) = binary64 (a + b)"
| "fl_add a b = js_add a b"

fun fl_sub :: "jsnum \<Rightarrow> jsnum \<Rightarrow> jsnum" where
  "fl_sub (Fin a) (Fin b) = binary64 (a - b)"
| "fl_sub a b = js_sub a b"

fun fl_mul :: "jsnum \<Rightarrow> jsnum \<Rightarrow> jsnum" where
  "fl_mul (Fin a) (Fin b) = binary64 (a * b)"
| "fl_mul a b = js_mul a b"

fun fl_div :: "jsnum \<Rightarrow> jsnum \<Rightarrow> jsnum" where
  "fl_div (Fin a) (Fin b) = (if b \<noteq> 0 then binary64 (a / b) else js_div (Fin a) (Fin b))"
| "fl_div a b = js_div a b"

text \<open>
  \<open>calculateTrend\<close> as the source computes it. \<open>indices\<close> holds the numbers
  \<open>0, ..., n - 1\<close> and \<open>n\<close> is an array length, all exact in binary64. Both
  \<open>reduce\<close> calls add from the left, starting at 0. \<open>Math.pow(x, 2)\<close> is taken as
  the rounded product \<open>x * x\<close>. \<open>denominator !== 0\<close> holds of \<open>NaN\<close> and of the
  infinities.
\<close>

definition trend_step ::
  "jsnum list \<Rightarrow> jsnum list \<Rightarrow> jsnum \<Rightarrow> jsnum \<Rightarrow> jsnum \<times> jsnum \<Rightarrow> nat \<Rightarrow> jsnum \<times> jsnum" where
  "trend_step indices vs meanX meanY acc i =
     (fl_add (fst acc) (fl_mul (fl_sub (indices ! i) meanX) (fl_sub (vs ! i) meanY)),
      fl_add (snd acc) (fl_mul (fl_sub (indices ! i) meanX) (fl_sub (indices ! i) meanX)))"

definition calculateTrend :: "jsnum list \<Rightarrow> jsnum" where
  "calculateTrend vs =
     (if length vs < 2 then Fin 0
      else
        let n = length vs;
            indices = map (\<lambda>i. Fin (real i)) [0..<n];
            meanX = fl_div (foldl fl_add (Fin 0) indices) (Fin (real n));
            meanY = fl_div (foldl fl_add (Fin 0) vs) (Fin (real n));
            acc = foldl (trend_step indices vs meanX meanY) (Fin 0, Fin 0) [0..<n];
            numerator = fst acc;
            denominator = snd acc
        in if denominator \<noteq> Fin 0 then fl_div numerator denominator else Fin 0)"

subsection \<open>The upstream archive\<close>

text \<open>
  A raw series is the object under one parameter code: its entries in the order
  \<open>Object.values\<close> enumerates them. Its values are numbers, as the source's cast
  \<open>as number[]\<close> takes them to be.
\<close>

type_synonym raw_series = "(string \<times> real) list"

text \<open>
  What \<open>nasaData.properties?.parameter?.X\<close> yields for the three codes: \<open>None\<close>
  when \<open>properties\<close>, \<open>parameter\<close> or the code is absent.
\<close>

record nasa_parameter =
  T2M :: "raw_series option"
  PRECTOTCORR :: "raw_series option"
  WS10M :: "raw_series option"

text \<open>
  A value that \<open>response.json()\<close> resolves to: \<open>null\<close> (reading
  \<open>nasaData.properties\<close> then throws), or any other value, seen through the three
  optional chains. In a response, \<open>json\<close> is that value, or the message of the error
  the promise rejects with.
\<close>

datatype nasa_data = NullData | Data nasa_parameter

record http_response =
  status :: nat
  json :: "string + nasa_data"

definition ok :: "http_response \<Rightarrow> bool" where
  "ok response = (200 \<le> status response \<and> status response \<le> 299)"

datatype fetch_outcome = FetchRejects string | FetchResolves http_response

text \<open>
  One call of \<open>fetchLocationData\<close>: its arguments \<open>lat\<close>, \<open>lon\<close>, \<open>startDate\<close>,
  \<open>endDate\<close>, \<open>parameters\<close>, which fix the URL it requests.
\<close>

type_synonym fetch_call = "jsval \<times> jsval \<times> string \<times> string \<times> string"

datatype jsdate = InvalidDate | LocalDate int nat nat

text \<open>
  What the handler takes from its platform: the year of \<open>new Date()\<close>, the \<open>Date\<close>
  constructor read in local time (year, 0-based month, day of month),
  the conversion of a string to a number, and the network.
\<close>

record env =
  currentYear :: int
  new_Date :: "jsval \<Rightarrow> jsdate"
  string_to_number :: "string \<Rightarrow> jsnum"
  fetch :: "fetch_call \<Rightarrow> fetch_outcome"

definition fetchLocationData :: "env \<Rightarrow> fetch_call \<Rightarrow> string + nasa_data" where
  "fetchLocationData e call =
     (case fetch e call of
        FetchRejects msg \<Rightarrow> Inl msg
      | FetchResolves response \<Rightarrow>
          if \<not> ok response then Inl (''NASA API error: '' @ show_nat (status response))
          else json response)"

text \<open>
  \<open>Promise.all\<close>: every promise settled, the values in order, or the error of a
  rejected one. When several reject, the one reported is the first to settle in the
  source; here it is the first of the list.
\<close>

fun Promise_all :: "(string + 'a) list \<Rightarrow> string + 'a list" where
  "Promise_all [] = Inr []"
| "Promise_all (Inl msg # ps) = Inl msg"
| "Promise_all (Inr v # ps) = (case Promise_all ps of Inl msg \<Rightarrow> Inl msg | Inr vs \<Rightarrow> Inr (v # vs))"

section \<open>The regional handler\<close>

record req_fields =
  lat :: jsval
  lon :: jsval
  date :: jsval
  variables :: "string list"

text \<open>
  A request: its \<open>method\<close> and the outcome of
  \<open>const { lat, lon, date, variables } = await req.json()\<close>, an error message when
  that line throws.
\<close>

record request =
  req_method :: string
  req_json :: "string + req_fields"

record confidence_range =
  lower :: jsnum
  upper :: jsnum

record prediction_result =
  average_temp :: real
  temp_std_dev :: real
  temp_confidence_range :: confidence_range
  temp_trend :: string
  temp_trend_value :: real
  average_precip :: real
  precip_std_dev :: real
  rain_probability :: real
  hot_probability :: real
  cold_probability :: real
  wind_probability :: real
  data_years :: nat
  data_points :: nat
  regional_coverage :: string

datatype response_body = NoBody | ErrorBody string | ResultBody prediction_result

record response =
  resp_status :: nat
  resp_body :: response_body

text \<open>\<open>ToNumber\<close>, and \<open>v + 0.5\<close> and \<open>v - 0.5\<close> on a field of the request.\<close>

definition ToNumber :: "env \<Rightarrow> jsval \<Rightarrow> jsnum" where
  "ToNumber e v =
     (case v of
        JUndefined \<Rightarrow> NaN
      | JNull \<Rightarrow> Fin 0
      | JBool b \<Rightarrow> Fin (if b then 1 else 0)
      | JNum x \<Rightarrow> x
      | JStr s \<Rightarrow> string_to_number e s)"

definition plus_half :: "env \<Rightarrow> jsval \<Rightarrow> jsval" where
  "plus_half e v =
     (case v of
        JStr s \<Rightarrow> JStr (s @ ''0.5'')
      | _ \<Rightarrow> JNum (js_add (ToNumber e v) (Fin (1 / 2))))"

definition minus_half :: "env \<Rightarrow> jsval \<Rightarrow> jsval" where
  "minus_half e v = JNum (js_sub (ToNumber e v) (Fin (1 / 2)))"

definition gridPoints :: "env \<Rightarrow> jsval \<Rightarrow> jsval \<Rightarrow> (jsval \<times> jsval) list" where
  "gridPoints e la lo =
     [(la, lo),
      (plus_half e la, lo),
      (minus_half e la, lo),
      (la, plus_half e lo),
      (la, minus_half e lo)]"

definition getMonth :: "jsdate \<Rightarrow> nat option" where
  "getMonth d = (case d of InvalidDate \<Rightarrow> None | LocalDate y m dd \<Rightarrow> Some m)"

definition getDate :: "jsdate \<Rightarrow> nat option" where
  "getDate d = (case d of InvalidDate \<Rightarrow> None | LocalDate y m dd \<Rightarrow> Some dd)"

definition parameters :: string where
  "parameters = ''T2M,PRECTOTCORR,WS10M''"

definition startDate :: "env \<Rightarrow> jsval \<Rightarrow> string" where
  "startDate e d =
     (let targetDate = new_Date e d;
          month = map_option Suc (getMonth targetDate);
          day = getDate targetDate;
          startYear = currentYear e - 15
      in show_int startYear @ padStart 2 CHR ''0'' (toString month) @ padStart 2 CHR ''0'' (toString day))"

definition endDate :: "env \<Rightarrow> jsval \<Rightarrow> string" where
  "endDate e d =
     (let targetDate = new_Date e d;
          month = map_option Suc (getMonth targetDate);
          day = getDate targetDate;
          endYear = currentYear e - 1
      in show_int endYear @ padStart 2 CHR ''0'' (toString month) @ padStart 2 CHR ''0'' (toString day))"

text \<open>\<open>Object.values(series || {})\<close> and its \<open>.filter(v => v !== -999)\<close>\<close>

definition Object_values :: "raw_series option \<Rightarrow> real list" where
  "Object_values series = map snd (case series of None \<Rightarrow> [] | Some kvs \<Rightarrow> kvs)"

definition sentinel_filter :: "raw_series option \<Rightarrow> real list" where
  "sentinel_filter series = filter (\<lambda>v. v \<noteq> - 999) (Object_values series)"

text \<open>
  The pooling loop over \<open>regionalData\<close>: \<open>Inl\<close> when an element is \<open>null\<close>, since
  reading its \<open>properties\<close> throws; otherwise the three pooled samples.
\<close>

definition null_message :: string where
  "null_message =
     ''Cannot read properties of null (reading '' @ [CHR 0x27] @ ''properties'' @ [CHR 0x27] @ '')''"

fun pool :: "nasa_data list \<Rightarrow> real list \<times> real list \<times> real list \<Rightarrow> string + real list \<times> real list \<times> real list" where
  "pool [] acc = Inr acc"
| "pool (NullData # rest) acc = Inl null_message"
| "pool (Data p # rest) (ts, ps, ws) =
     pool rest (ts @ sentinel_filter (T2M p),
                ps @ sentinel_filter (PRECTOTCORR p),
                ws @ sentinel_filter (WS10M p))"

text \<open>
  The statistics and the \<open>result\<close> object, from the three pooled samples, in exact
  arithmetic.
  \<open>round_to k x\<close> stands for the source's \<open>Math.round(x * k) / k\<close>, and
  \<open>percentage hits len\<close> for its four copies of
  \<open>len > 0 ? Math.round((hits / len) * 100) : 0\<close>.
\<close>

definition round_to :: "real \<Rightarrow> real \<Rightarrow> real" where
  "round_to k x = Math_round (x * k) / k"

definition js_round_to :: "real \<Rightarrow> jsnum \<Rightarrow> jsnum" where
  "js_round_to k x = js_div (js_round (js_mul x (Fin k))) (Fin k)"

definition percentage :: "nat \<Rightarrow> nat \<Rightarrow> real" where
  "percentage hits len = (if len > 0 then Math_round (real hits / real len * 100) else 0)"

definition result :: "nat \<Rightarrow> real list \<Rightarrow> real list \<Rightarrow> real list \<Rightarrow> prediction_result" where
  "result gridLength allTempValues allPrecipValues allWindValues =
     (let avg_temp = (if length allTempValues > 0
                      then reduce_sum allTempValues / real (length allTempValues) else 20);
          std_dev = calculateStdDev allTempValues avg_temp;
          trend = calculateTrend_exact allTempValues;
          z_score = 196 / 100;
          margin_of_error =
            js_mul (Fin z_score) (js_div (Fin std_dev) (Fin (sqrt (real (length allTempValues)))));
          temp_confidence_lower = js_sub (Fin avg_temp) margin_of_error;
          temp_confidence_upper = js_add (Fin avg_temp) margin_of_error;
          avg_precip = (if length allPrecipValues > 0
                        then reduce_sum allPrecipValues / real (length allPrecipValues) else 0);
          p_std_dev = calculateStdDev allPrecipValues avg_precip;
          rainyDays = length (filter (\<lambda>p. p > 1) allPrecipValues);
          hotDays = length (filter (\<lambda>t. t > 35) allTempValues);
          coldDays = length (filter (\<lambda>t. t < 10) allTempValues);
          windyDays = length (filter (\<lambda>w. w > 10) allWindValues)
      in \<lparr> average_temp = round_to 10 avg_temp,
           temp_std_dev = round_to 10 std_dev,
           temp_confidence_range =
             \<lparr> lower = js_round_to 10 temp_confidence_lower,
               upper = js_round_to 10 temp_confidence_upper \<rparr>,
           temp_trend = (if trend > 1 / 100 then ''warming''
                         else if trend < - (1 / 100) then ''cooling'' else ''stable''),
           temp_trend_value = round_to 1000 trend,
           average_precip = round_to 100 avg_precip,
           precip_std_dev = round_to 100 p_std_dev,
           rain_probability = percentage rainyDays (length allPrecipValues),
           hot_probability = percentage hotDays (length allTempValues),
           cold_probability = percentage coldDays (length allTempValues),
           wind_probability = percentage windyDays (length allWindValues),
           data_years = 15,
           data_points = length allTempValues,
           regional_coverage = ''~50km radius ('' @ show_nat gridLength @ '' grid points)'' \<rparr>)"

definition error_response :: "string \<Rightarrow> response" where
  "error_response msg = \<lparr> resp_status = 500, resp_body = ErrorBody msg \<rparr>"

text \<open>
  The handler returns the calls of \<open>fetchLocationData\<close> it has made, in order, and
  its response. A \<open>Response\<close> built without a status has status 200. Everything
  thrown inside the \<open>try\<close> block is an \<open>Error\<close>, so the \<open>catch\<close> branch answers
  with its message.
\<close>

definition handler :: "env \<Rightarrow> request \<Rightarrow> fetch_call list \<times> response" where
  "handler e req =
     (if req_method req = ''OPTIONS'' then ([], \<lparr> resp_status = 200, resp_body = NoBody \<rparr>)
      else case req_json req of
        Inl msg \<Rightarrow> ([], error_response msg)
      | Inr f \<Rightarrow>
          let points = gridPoints e (lat f) (lon f);
              calls = map (\<lambda>(la, lo). (la, lo, startDate e (date f), endDate e (date f), parameters)) points
          in (calls,
              case Promise_all (map (fetchLocationData e) calls) of
                Inl msg \<Rightarrow> error_response msg
              | Inr regionalData \<Rightarrow>
                  (case pool regionalData ([], [], []) of
                     Inl msg \<Rightarrow> error_response msg
                   | Inr (ts, ps, ws) \<Rightarrow>
                       \<lparr> resp_status = 200,
                         resp_body = ResultBody (result (length points) ts ps ws) \<rparr>)))"

section \<open>Reference notions\<close>

text \<open>
  The least-squares slope of the points \<open>(i, ys ! i)\<close>, \<open>i < length ys\<close>, as the textbook
  has it: the sum of the products of the deviations over the sum of the squared
  deviations of the index.
\<close>

definition index_mean :: "nat \<Rightarrow> real" where
  "index_mean n = sum_list (map real [0..<n]) / real n"

definition index_variance :: "nat \<Rightarrow> real" where
  "index_variance n = sum_list (map (\<lambda>i. (real i - index_mean n) ^ 2) [0..<n])"

definition ols_slope :: "real list \<Rightarrow> real" where
  "ols_slope ys =
     (let n = length ys;
          ybar = sum_list ys / real n
      in sum_list (map (\<lambda>i. (real i - index_mean n) * (ys ! i - ybar)) [0..<n]) / index_variance n)"

definition linear_sequence :: "real \<Rightarrow> real \<Rightarrow> nat \<Rightarrow> real list" where
  "linear_sequence a d n = map (\<lambda>i. a + real i * d) [0..<n]"

text \<open>
  The values that \<open>calculateTrend\<close> computes on the way, in exact arithmetic: the
  running sums of the indices and of the values, the two means, the deviations, their
  products and squares, the running sums of both, and the quotient. The computation is
  exact in binary64 when each of them is representable, that is, when no operation
  rounds or overflows.
\<close>

definition partial_sums :: "real list \<Rightarrow> real list" where
  "partial_sums ys = map (\<lambda>k. sum_list (take k ys)) [0..<Suc (length ys)]"

definition trend_intermediates :: "real list \<Rightarrow> real list" where
  "trend_intermediates xs =
     (let n = length xs;
          ybar = sum_list xs / real n;
          dx = (\<lambda>i. real i - index_mean n);
          dy = (\<lambda>i. xs ! i - ybar)
      in partial_sums (map real [0..<n]) @ [index_mean n]
         @ partial_sums xs @ [ybar]
         @ map dx [0..<n] @ map dy [0..<n]
         @ map (\<lambda>i. dx i * dy i) [0..<n] @ map (\<lambda>i. dx i * dx i) [0..<n]
         @ partial_sums (map (\<lambda>i. dx i * dy i) [0..<n])
         @ partial_sums (map (\<lambda>i. dx i * dx i) [0..<n])
         @ [ols_slope xs])"

definition exact_in_binary64 :: "real list \<Rightarrow> bool" where
  "exact_in_binary64 xs = list_all representable (trend_intermediates xs)"

text \<open>
  \<open>p\<close> is a whole percentage between 0 and 100; and it is one nearest to the share
  of \<open>hits\<close> in \<open>len\<close>.
\<close>

definition whole_percent :: "real \<Rightarrow> bool" where
  "whole_percent p = (of_int \<lfloor>p\<rfloor> = p \<and> 0 \<le> p \<and> p \<le> 100)"

definition nearest_percent :: "real \<Rightarrow> nat \<Rightarrow> nat \<Rightarrow> bool" where
  "nearest_percent p hits len =
     (whole_percent p \<and> \<bar>p - 100 * real hits / real len\<bar> \<le> 1 / 2)"

section \<open>Sample platforms and requests\<close>

text \<open>A \<open>Date\<close> constructor that knows one date string, read in UTC.\<close>

definition one_date :: "jsval \<Rightarrow> jsdate" where
  "one_date v = (if v = JStr ''2025-06-15T00:00:00.000Z'' then LocalDate 2025 5 15 else InvalidDate)"

definition platform :: "(fetch_call \<Rightarrow> fetch_outcome) \<Rightarrow> env" where
  "platform f = \<lparr> currentYear = 2026, new_Date = one_date, string_to_number = (\<lambda>s. NaN), fetch = f \<rparr>"

definition query :: "jsval \<Rightarrow> jsval \<Rightarrow> jsval \<Rightarrow> string list \<Rightarrow> request" where
  "query la lo d vs =
     \<lparr> req_method = ''POST'', req_json = Inr \<lparr> lat = la, lon = lo, date = d, variables = vs \<rparr> \<rparr>"

definition new_york :: "string list \<Rightarrow> request" where
  "new_york vs = query (JNum (Fin 40)) (JNum (Fin (- 74))) (JStr ''2025-06-15T00:00:00.000Z'') vs"

text \<open>An archive that answers every call with the same payload.\<close>

definition archive :: "nasa_parameter \<Rightarrow> fetch_call \<Rightarrow> fetch_outcome" where
  "archive p call = FetchResolves \<lparr> status = 200, json = Inr (Data p) \<rparr>"

definition no_data :: nasa_parameter where
  "no_data = \<lparr> T2M = None, PRECTOTCORR = None, WS10M = None \<rparr>"

text \<open>Two days of the requested range: 15 June 2011 and the day after.\<close>

definition two_days :: nasa_parameter where
  "two_days =
     \<lparr> T2M = Some [(''20110615'', 20), (''20110616'', 30)],
       PRECTOTCORR = Some [(''20110615'', 0), (''20110616'', 2)],
       WS10M = Some [(''20110615'', - 999), (''20110616'', 12)] \<rparr>"

text \<open>An archive that answers 422 unless both coordinates are finite numbers.\<close>

definition strict_archive :: "fetch_call \<Rightarrow> fetch_outcome" where
  "strict_archive call =
     (case call of
        (JNum (Fin la), JNum (Fin lo), rest) \<Rightarrow> archive two_days call
      | _ \<Rightarrow> FetchResolves \<lparr> status = 422, json = Inr NullData \<rparr>)"

text \<open>An archive that is down (503) for the southern grid point of \<open>new_york\<close>.\<close>

definition south_down :: "fetch_call \<Rightarrow> fetch_outcome" where
  "south_down call =
     (if fst call = JNum (Fin (79 / 2)) then FetchResolves \<lparr> status = 503, json = Inr NullData \<rparr>
      else archive two_days call)"

text \<open>A request without \<open>lat\<close> and without \<open>date\<close>.\<close>

definition missing_lat :: request where
  "missing_lat = query JUndefined (JNum (Fin (- 74))) JUndefined []"

section \<open>Basic facts\<close>

lemma reduce_sum_eq: "reduce_sum vs = sum_list vs"
proof -
  have "foldl (\<lambda>a b. a + b) a vs = a + sum_list vs" for a :: real
    by (induction vs arbitrary: a) simp_all
  then show ?thesis by (simp add: reduce_sum_def)
qed

lemma show_nat_5: "show_nat 5 = ''5''"
  by (simp add: show_nat.simps digit_char_def)

lemma show_nat_422: "show_nat 422 = ''422''" and show_nat_503: "show_nat 503 = ''503''"
  by (simp_all add: show_nat.simps digit_char_def)

lemma length_gridPoints: "length (gridPoints e la lo) = 5"
  by (simp add: gridPoints_def)

subsection \<open>The handler by parts\<close>

lemma handler_calls:
  assumes "req_method req \<noteq> ''OPTIONS''" and "req_json req = Inr f"
  shows "fst (handler e req) =
           map (\<lambda>(la, lo). (la, lo, startDate e (date f), endDate e (date f), parameters))
               (gridPoints e (lat f) (lon f))"
  using assms by (simp add: handler_def Let_def)

lemma handler_response:
  assumes "req_method req \<noteq> ''OPTIONS''" and "req_json req = Inr f"
  shows "snd (handler e req) =
           (case Promise_all (map (fetchLocationData e) (fst (handler e req))) of
              Inl msg \<Rightarrow> error_response msg
            | Inr regionalData \<Rightarrow>
                (case pool regionalData ([], [], []) of
                   Inl msg \<Rightarrow> error_response msg
                 | Inr (ts, ps, ws) \<Rightarrow>
                     \<lparr> resp_status = 200, resp_body = ResultBody (result 5 ts ps ws) \<rparr>))"
  using assms
  by (simp add: handler_def Let_def length_gridPoints split: sum.splits prod.splits)

lemma handler_outcomes:
  assumes "req_method req \<noteq> ''OPTIONS''" and "req_json req = Inr f"
  shows "(\<exists>ts ps ws. snd (handler e req) =
            \<lparr> resp_status = 200, resp_body = ResultBody (result 5 ts ps ws) \<rparr>)
         \<or> (\<exists>msg. snd (handler e req) = \<lparr> resp_status = 500, resp_body = ErrorBody msg \<rparr>)"
  unfolding handler_response [OF assms]
  by (auto simp: error_response_def split: sum.splits)

lemma handler_success_result:
  assumes "snd (handler e req) = r" and "resp_body r = ResultBody p"
  shows "\<exists>ts ps ws. p = result 5 ts ps ws"
  using assms
  by (fastforce simp: handler_def error_response_def Let_def length_gridPoints
        split: if_splits sum.splits prod.splits)

subsection \<open>Fan-out and pooling\<close>

lemma Promise_all_Inl: "Inl msg \<in> set ps \<Longrightarrow> \<exists>m. Promise_all ps = Inl m"
proof (induction ps)
  case Nil
  then show ?case by simp
next
  case (Cons p ps)
  show ?case
  proof (cases p)
    case (Inl m)
    then show ?thesis by simp
  next
    case (Inr v)
    with Cons obtain m where "Promise_all ps = Inl m" by auto
    with Inr show ?thesis by simp
  qed
qed

lemma Promise_all_Inr: "Promise_all (map Inr vs) = Inr vs"
  by (induction vs) simp_all

lemma all_resolve_Data:
  assumes "\<forall>c \<in> set cs. \<exists>r q.
             fetch e c = FetchResolves r \<and> ok r \<and> json r = Inr (Data q) \<and> P q"
  shows "\<exists>qs. map (fetchLocationData e) cs = map Inr (map Data qs) \<and> (\<forall>q \<in> set qs. P q)"
  using assms
proof (induction cs)
  case Nil
  then show ?case by simp
next
  case (Cons c cs)
  then obtain qs where qs: "map (fetchLocationData e) cs = map Inr (map Data qs)"
      "\<forall>q \<in> set qs. P q"
    by auto
  from Cons.prems obtain r q
    where "fetch e c = FetchResolves r" "ok r" "json r = Inr (Data q)" "P q"
    by auto
  then have "fetchLocationData e c = Inr (Data q)"
    by (simp add: fetchLocationData_def)
  with qs \<open>P q\<close>
  have "map (fetchLocationData e) (c # cs) = map Inr (map Data (q # qs))
        \<and> (\<forall>q \<in> set (q # qs). P q)"
    by simp
  then show ?case by blast
qed

lemma pool_Data:
  "pool (map Data qs) (ts, ps, ws) =
     Inr (ts @ concat (map (\<lambda>q. sentinel_filter (T2M q)) qs),
          ps @ concat (map (\<lambda>q. sentinel_filter (PRECTOTCORR q)) qs),
          ws @ concat (map (\<lambda>q. sentinel_filter (WS10M q)) qs))"
  by (induction qs arbitrary: ts ps ws) simp_all

lemma Promise_all_Inr_D: "Promise_all ps = Inr vs \<Longrightarrow> ps = map Inr vs"
proof (induction ps arbitrary: vs)
  case Nil
  then show ?case by simp
next
  case (Cons p ps)
  then show ?case
    by (cases p) (auto split: sum.splits)
qed

lemma pool_NullData: "NullData \<in> set ds \<Longrightarrow> pool ds acc = Inl null_message"
proof (induction ds arbitrary: acc)
  case Nil
  then show ?case by simp
next
  case (Cons d ds)
  obtain ts ps ws where acc: "acc = (ts, ps, ws)" by (cases acc) auto
  show ?case
  proof (cases d)
    case NullData
    then show ?thesis by simp
  next
    case (Data p)
    with Cons.prems have "NullData \<in> set ds" by simp
    then show ?thesis using Data acc by (simp add: Cons.IH)
  qed
qed

lemma fetchLocationData_cases:
  assumes "\<not> (\<exists>r q. fetch e c = FetchResolves r \<and> ok r \<and> json r = Inr (Data q))"
  shows "(\<exists>m. fetchLocationData e c = Inl m) \<or> fetchLocationData e c = Inr NullData"
proof (cases "fetch e c")
  case (FetchRejects m)
  then show ?thesis by (simp add: fetchLocationData_def)
next
  case (FetchResolves r)
  show ?thesis
  proof (cases "ok r")
    case False
    with FetchResolves show ?thesis by (simp add: fetchLocationData_def)
  next
    case True
    show ?thesis
    proof (cases "json r")
      case (Inl m)
      with FetchResolves True show ?thesis by (simp add: fetchLocationData_def)
    next
      case (Inr d)
      with assms FetchResolves True have "d = NullData" by (cases d) auto
      with Inr FetchResolves True show ?thesis by (simp add: fetchLocationData_def)
    qed
  qed
qed

lemma failed_call_gives_error:
  assumes "c \<in> set cs"
    and "\<not> (\<exists>r q. fetch e c = FetchResolves r \<and> ok r \<and> json r = Inr (Data q))"
  shows "\<exists>m. (case Promise_all (map (fetchLocationData e) cs) of
              Inl msg \<Rightarrow> error_response msg
            | Inr regionalData \<Rightarrow>
                (case pool regionalData ([], [], []) of
                   Inl msg \<Rightarrow> error_response msg
                 | Inr (ts, ps, ws) \<Rightarrow>
                     \<lparr> resp_status = 200, resp_body = ResultBody (result 5 ts ps ws) \<rparr>))
          = error_response m"
proof (cases "Promise_all (map (fetchLocationData e) cs)")
  case (Inl m)
  then show ?thesis by auto
next
  case (Inr vs)
  then have eq: "map (fetchLocationData e) cs = map Inr vs" by (rule Promise_all_Inr_D)
  from assms(1) have "fetchLocationData e c \<in> set (map (fetchLocationData e) cs)" by simp
  with eq have "fetchLocationData e c \<in> Inr ` set vs" by simp
  with fetchLocationData_cases [OF assms(2)] have "NullData \<in> set vs" by auto
  then have "pool vs ([], [], []) = Inl null_message" by (rule pool_NullData)
  with Inr show ?thesis by auto
qed

subsection \<open>The sample platforms\<close>

lemma platform_fetch: "fetch (platform f) = f"
  by (simp add: platform_def)

lemma platform_dates:
  "startDate (platform f) (JStr ''2025-06-15T00:00:00.000Z'') = ''20110615''"
  "endDate (platform f) (JStr ''2025-06-15T00:00:00.000Z'') = ''20250615''"
  by (simp_all add: startDate_def endDate_def platform_def one_date_def getMonth_def getDate_def
        toString_def padStart_def show_int_def show_nat.simps digit_char_def Let_def)

lemma platform_invalid_dates:
  "startDate (platform f) JUndefined = ''2011NaNNaN''"
  "endDate (platform f) JUndefined = ''2025NaNNaN''"
  by (simp_all add: startDate_def endDate_def platform_def one_date_def getMonth_def getDate_def
        toString_def padStart_def show_int_def show_nat.simps digit_char_def Let_def)

lemma new_york_fields:
  "req_method (new_york vs) \<noteq> ''OPTIONS''"
  "req_json (new_york vs) = Inr \<lparr> lat = JNum (Fin 40), lon = JNum (Fin (- 74)),
      date = JStr ''2025-06-15T00:00:00.000Z'', variables = vs \<rparr>"
  by (simp_all add: new_york_def query_def)

lemma missing_lat_fields:
  "req_method missing_lat \<noteq> ''OPTIONS''"
  "req_json missing_lat = Inr \<lparr> lat = JUndefined, lon = JNum (Fin (- 74)),
      date = JUndefined, variables = [] \<rparr>"
  by (simp_all add: missing_lat_def query_def)

lemma new_york_calls:
  "fst (handler (platform f) (new_york vs)) =
     [(JNum (Fin 40), JNum (Fin (- 74)), ''20110615'', ''20250615'', ''T2M,PRECTOTCORR,WS10M''),
      (JNum (Fin (81 / 2)), JNum (Fin (- 74)), ''20110615'', ''20250615'', ''T2M,PRECTOTCORR,WS10M''),
      (JNum (Fin (79 / 2)), JNum (Fin (- 74)), ''20110615'', ''20250615'', ''T2M,PRECTOTCORR,WS10M''),
      (JNum (Fin 40), JNum (Fin (- 147 / 2)), ''20110615'', ''20250615'', ''T2M,PRECTOTCORR,WS10M''),
      (JNum (Fin 40), JNum (Fin (- 149 / 2)), ''20110615'', ''20250615'', ''T2M,PRECTOTCORR,WS10M'')]"
  by (simp add: handler_def new_york_def query_def Let_def gridPoints_def plus_half_def
        minus_half_def ToNumber_def js_sub_def platform_dates parameters_def)

lemma missing_lat_calls:
  "fst (handler (platform f) missing_lat) =
     [(JUndefined, JNum (Fin (- 74)), ''2011NaNNaN'', ''2025NaNNaN'', ''T2M,PRECTOTCORR,WS10M''),
      (JNum NaN, JNum (Fin (- 74)), ''2011NaNNaN'', ''2025NaNNaN'', ''T2M,PRECTOTCORR,WS10M''),
      (JNum NaN, JNum (Fin (- 74)), ''2011NaNNaN'', ''2025NaNNaN'', ''T2M,PRECTOTCORR,WS10M''),
      (JUndefined, JNum (Fin (- 147 / 2)), ''2011NaNNaN'', ''2025NaNNaN'', ''T2M,PRECTOTCORR,WS10M''),
      (JUndefined, JNum (Fin (- 149 / 2)), ''2011NaNNaN'', ''2025NaNNaN'', ''T2M,PRECTOTCORR,WS10M'')]"
  by (simp add: handler_def missing_lat_def query_def Let_def gridPoints_def plus_half_def
        minus_half_def ToNumber_def js_sub_def platform_invalid_dates parameters_def)

lemma fetch_archive: "fetchLocationData (platform (archive p)) c = Inr (Data p)"
  by (simp add: fetchLocationData_def platform_def archive_def ok_def)

lemma handler_archive:
  assumes "req_method req \<noteq> ''OPTIONS''" and "req_json req = Inr f"
  shows "snd (handler (platform (archive p)) req) =
     \<lparr> resp_status = 200,
       resp_body = ResultBody (result 5 (concat (replicate 5 (sentinel_filter (T2M p))))
                                        (concat (replicate 5 (sentinel_filter (PRECTOTCORR p))))
                                        (concat (replicate 5 (sentinel_filter (WS10M p))))) \<rparr>"
  using assms
  by (simp add: handler_def Let_def gridPoints_def fetch_archive eval_nat_numeral)

lemma two_days_samples:
  "sentinel_filter (T2M two_days) = [20, 30]"
  "sentinel_filter (PRECTOTCORR two_days) = [0, 2]"
  "sentinel_filter (WS10M two_days) = [12]"
  by (simp_all add: two_days_def sentinel_filter_def Object_values_def)

lemma no_data_samples:
  "sentinel_filter (T2M no_data) = []"
  "sentinel_filter (PRECTOTCORR no_data) = []"
  "sentinel_filter (WS10M no_data) = []"
  by (simp_all add: no_data_def sentinel_filter_def Object_values_def)

lemma missing_lat_strict:
  "snd (handler (platform strict_archive) missing_lat) =
     \<lparr> resp_status = 500, resp_body = ErrorBody ''NASA API error: 422'' \<rparr>"
  by (simp add: handler_response [OF missing_lat_fields] missing_lat_calls fetchLocationData_def
        platform_fetch strict_archive_def ok_def show_nat_422 error_response_def)

lemma new_york_south_down:
  "snd (handler (platform south_down) (new_york [])) =
     \<lparr> resp_status = 500, resp_body = ErrorBody ''NASA API error: 503'' \<rparr>"
  by (simp add: handler_response [OF new_york_fields] new_york_calls fetchLocationData_def
        platform_fetch south_down_def archive_def ok_def show_nat_503 error_response_def)

lemma result_no_samples:
  "result g [] [] [] =
     \<lparr> average_temp = 20, temp_std_dev = 0,
       temp_confidence_range = \<lparr> lower = NaN, upper = NaN \<rparr>,
       temp_trend = ''stable'', temp_trend_value = 0,
       average_precip = 0, precip_std_dev = 0,
       rain_probability = 0, hot_probability = 0, cold_probability = 0, wind_probability = 0,
       data_years = 15, data_points = 0,
       regional_coverage = ''~50km radius ('' @ show_nat g @ '' grid points)'' \<rparr>"
  by (simp add: result_def calculateStdDev_def calculateTrend_exact_def round_to_def Math_round_def
        percentage_def js_round_to_def js_sub_def)

section \<open>The historical window\<close>

text \<open>
  C1. The claim is that the pooled samples come from one calendar day (the month and
  day of the target date) in each of the fifteen years before the current one, and from
  no other date. The handler asks each grid point for one range, from that day of the
  first year to that day of the last year, and pools every value of the answer
  whatever its date key. For a query for 15 June made in 2026, each of the five calls
  asks for 20110615 to 20250615; an archive that answers with 15 June 2011 and with
  16 June 2011, a day inside the range, has both days pooled: ten temperatures, mean 25.
\<close>

theorem range_values_all_pooled:
  "fst (handler (platform (archive two_days)) (new_york [])) =
     [(JNum (Fin 40), JNum (Fin (- 74)), ''20110615'', ''20250615'', ''T2M,PRECTOTCORR,WS10M''),
      (JNum (Fin (81 / 2)), JNum (Fin (- 74)), ''20110615'', ''20250615'', ''T2M,PRECTOTCORR,WS10M''),
      (JNum (Fin (79 / 2)), JNum (Fin (- 74)), ''20110615'', ''20250615'', ''T2M,PRECTOTCORR,WS10M''),
      (JNum (Fin 40), JNum (Fin (- 147 / 2)), ''20110615'', ''20250615'', ''T2M,PRECTOTCORR,WS10M''),
      (JNum (Fin 40), JNum (Fin (- 149 / 2)), ''20110615'', ''20250615'', ''T2M,PRECTOTCORR,WS10M'')]
   \<and> snd (handler (platform (archive two_days)) (new_york [])) =
       \<lparr> resp_status = 200,
         resp_body = ResultBody (result 5 [20, 30, 20, 30, 20, 30, 20, 30, 20, 30]
                                          [0, 2, 0, 2, 0, 2, 0, 2, 0, 2]
                                          [12, 12, 12, 12, 12]) \<rparr>
   \<and> data_points (result 5 [20, 30, 20, 30, 20, 30, 20, 30, 20, 30]
                            [0, 2, 0, 2, 0, 2, 0, 2, 0, 2] [12, 12, 12, 12, 12]) = 10
   \<and> average_temp (result 5 [20, 30, 20, 30, 20, 30, 20, 30, 20, 30]
                             [0, 2, 0, 2, 0, 2, 0, 2, 0, 2] [12, 12, 12, 12, 12]) = 25
   \<and> rain_probability (result 5 [20, 30, 20, 30, 20, 30, 20, 30, 20, 30]
                                 [0, 2, 0, 2, 0, 2, 0, 2, 0, 2] [12, 12, 12, 12, 12]) = 50"
  by (simp add: new_york_calls handler_archive [OF new_york_fields] two_days_samples
        eval_nat_numeral result_def Let_def reduce_sum_def round_to_def Math_round_def
        percentage_def)

section \<open>Malformed requests\<close>




section \<open>The confidence interval of an empty sample\<close>

text \<open>
  C3. The claim is that with an empty temperature sample the margin
  \<open>1.96 * std_dev / sqrt(n)\<close> is guarded, so that the interval is of width zero around
  the mean or an explicit no-data marker, never \<open>NaN\<close>. The mean and the standard
  deviation are guarded (20 and 0); the margin is not: it is \<open>0 / 0\<close>, and both bounds
  of the interval are \<open>NaN\<close>.
\<close>

theorem empty_sample_interval_is_NaN:
  "snd (handler (platform (archive no_data)) (new_york [])) =
     \<lparr> resp_status = 200, resp_body = ResultBody (result 5 [] [] []) \<rparr>
   \<and> temp_confidence_range (result 5 [] [] []) = \<lparr> lower = NaN, upper = NaN \<rparr>
   \<and> average_temp (result 5 [] [] []) = 20
   \<and> temp_std_dev (result 5 [] [] []) = 0"
  by (simp add: handler_archive [OF new_york_fields] no_data_samples eval_nat_numeral
        result_def Let_def calculateStdDev_def js_round_to_def js_sub_def round_to_def
        Math_round_def)

section \<open>All-or-nothing fan-out\<close>

text \<open>
  C4. If one of the five grid-point fetches comes back with a status that is not a
  success, the whole call fails: five calls were made, and the answer is the single
  error \<open>{error: message}\<close> with status 500, not a result.
\<close>

theorem one_failed_fetch_fails_all:
  assumes "req_method req \<noteq> ''OPTIONS''" and "req_json req = Inr f"
    and "\<exists>c \<in> set (fst (handler e req)). \<exists>r. fetch e c = FetchResolves r \<and> \<not> ok r"
  shows "length (fst (handler e req)) = 5
         \<and> (\<exists>msg. snd (handler e req) = \<lparr> resp_status = 500, resp_body = ErrorBody msg \<rparr>)"
proof -
  from assms(3) obtain c r where c: "c \<in> set (fst (handler e req))"
    and r: "fetch e c = FetchResolves r" "\<not> ok r" by blast
  have "fetchLocationData e c = Inl (''NASA API error: '' @ show_nat (status r))"
    using r by (simp add: fetchLocationData_def)
  with c have "Inl (''NASA API error: '' @ show_nat (status r))
                 \<in> set (map (fetchLocationData e) (fst (handler e req)))"
    by force
  then obtain m where "Promise_all (map (fetchLocationData e) (fst (handler e req))) = Inl m"
    using Promise_all_Inl by blast
  then have "snd (handler e req) = error_response m"
    by (simp add: handler_response [OF assms(1,2)])
  moreover have "length (fst (handler e req)) = 5"
    by (simp add: handler_calls [OF assms(1,2)] length_gridPoints)
  ultimately show ?thesis by (simp add: error_response_def)
qed

theorem one_failed_fetch_fails_all_witness:
  "req_method (new_york []) \<noteq> ''OPTIONS''
   \<and> fetch (platform south_down)
         (JNum (Fin (79 / 2)), JNum (Fin (- 74)), ''20110615'', ''20250615'',
          ''T2M,PRECTOTCORR,WS10M'')
       = FetchResolves \<lparr> status = 503, json = Inr NullData \<rparr>
   \<and> \<not> ok \<lparr> status = 503, json = Inr NullData \<rparr>
   \<and> length (fst (handler (platform south_down) (new_york []))) = 5
   \<and> snd (handler (platform south_down) (new_york [])) =
       \<lparr> resp_status = 500, resp_body = ErrorBody ''NASA API error: 503'' \<rparr>"
  using one_failed_fetch_fails_all
          [where req = "new_york []" and e = "platform south_down"
             and f = "\<lparr> lat = JNum (Fin 40), lon = JNum (Fin (- 74)),
                        date = JStr ''2025-06-15T00:00:00.000Z'', variables = [] \<rparr>"]
  by (simp add: new_york_fields new_york_calls new_york_south_down platform_fetch
        south_down_def ok_def)

section \<open>The sentinel filter\<close>

text \<open>
  C5. For every raw series the filter gives the values without any \<open>-999\<close>, in their
  order (a subsequence of the values that keeps every other value as often as it
  occurs); it changes nothing when no \<open>-999\<close> occurs; it is a total function; and an
  absent or empty series gives the empty sequence.
\<close>

theorem sentinel_filter_removes_only_sentinels:
  "- 999 \<notin> set (sentinel_filter series)
   \<and> subseq (sentinel_filter series) (Object_values series)
   \<and> (\<forall>v. v \<noteq> - 999 \<longrightarrow>
         count_list (sentinel_filter series) v = count_list (Object_values series) v)
   \<and> (- 999 \<notin> set (Object_values series) \<longrightarrow> sentinel_filter series = Object_values series)
   \<and> sentinel_filter None = []
   \<and> sentinel_filter (Some []) = []"
proof -
  have count: "x \<noteq> - 999 \<Longrightarrow> count_list (filter (\<lambda>v. v \<noteq> - 999) xs) x = count_list xs x"
    for x :: real and xs
    by (induction xs) auto
  have ident: "- 999 \<notin> set xs \<Longrightarrow> filter (\<lambda>v. v \<noteq> - 999) xs = xs" for xs :: "real list"
    by (induction xs) auto
  show ?thesis
    unfolding sentinel_filter_def
    using count ident by (simp add: Object_values_def)
qed

theorem sentinel_filter_removes_only_sentinels_witness:
  "sentinel_filter (Some [(''20110615'', 1), (''20110616'', - 999), (''20110617'', 2)]) = [1, 2]
   \<and> (2::real) \<noteq> - 999
   \<and> count_list (sentinel_filter (Some [(''20110615'', 1), (''20110616'', - 999), (''20110617'', 2)])) 2 = 1
   \<and> - 999 \<notin> set (Object_values (Some [(''20110615'', 1), (''20110617'', 2)]))
   \<and> sentinel_filter (Some [(''20110615'', 1), (''20110617'', 2)]) = [1, 2]"
  using sentinel_filter_removes_only_sentinels
          [of "Some [(''20110615'', 1), (''20110616'', - 999), (''20110617'', 2)]"]
        sentinel_filter_removes_only_sentinels [of "Some [(''20110615'', 1), (''20110617'', 2)]"]
  by (simp add: sentinel_filter_def Object_values_def)

section \<open>Exceedance probabilities\<close>

lemma percentage_nearest:
  assumes "hits \<le> len" and "0 < len"
  shows "nearest_percent (percentage hits len) hits len"
proof -
  define x where "x = real hits / real len * 100"
  define k where "k = \<lfloor>x + 1 / 2\<rfloor>"
  have x0: "0 \<le> x" by (simp add: x_def)
  have "real hits / real len \<le> 1" using assms by simp
  then have "real hits / real len * 100 \<le> 1 * 100" by (rule mult_right_mono) simp
  then have x100: "x \<le> 100" by (simp add: x_def)
  have k_le: "of_int k \<le> x + 1 / 2" unfolding k_def by (rule of_int_floor_le)
  have k_gt: "x + 1 / 2 < of_int k + 1" unfolding k_def by linarith
  have "0 \<le> k" unfolding k_def using x0 by linarith
  then have lo: "(0::real) \<le> of_int k" by simp
  have "k \<le> 100" unfolding k_def using x100 by linarith
  then have hi: "(of_int k :: real) \<le> 100" by linarith
  have near: "\<bar>of_int k - x\<bar> \<le> 1 / 2" using k_le k_gt by linarith
  have p: "percentage hits len = of_int k"
    using assms by (simp add: percentage_def Math_round_def k_def x_def)
  have x: "100 * real hits / real len = x" by (simp add: x_def)
  show ?thesis
    unfolding nearest_percent_def whole_percent_def p x
    using lo hi near by simp
qed

lemma percentage_whole: "hits \<le> len \<Longrightarrow> whole_percent (percentage hits len)"
proof (cases "len = 0")
  case True
  then show ?thesis by (simp add: percentage_def whole_percent_def)
next
  case False
  assume "hits \<le> len"
  with False have "nearest_percent (percentage hits len) hits len"
    by (simp add: percentage_nearest)
  then show ?thesis by (simp add: nearest_percent_def)
qed

text \<open>
  C6. For every pooled sample each of the four probabilities (rain: above 1, hot: above
  35, cold: below 10, wind: above 10) is 0 when its sample is empty and otherwise a
  whole percentage nearest to the count of the values meeting the predicate over the
  count of all values; so every probability is a whole number from 0 to 100.
\<close>

theorem probabilities_are_rounded_shares:
  "(if ps = [] then rain_probability (result g ts ps ws) = 0
    else nearest_percent (rain_probability (result g ts ps ws))
           (length (filter (\<lambda>v. v > 1) ps)) (length ps))
   \<and> (if ts = [] then hot_probability (result g ts ps ws) = 0
      else nearest_percent (hot_probability (result g ts ps ws))
             (length (filter (\<lambda>v. v > 35) ts)) (length ts))
   \<and> (if ts = [] then cold_probability (result g ts ps ws) = 0
      else nearest_percent (cold_probability (result g ts ps ws))
             (length (filter (\<lambda>v. v < 10) ts)) (length ts))
   \<and> (if ws = [] then wind_probability (result g ts ps ws) = 0
      else nearest_percent (wind_probability (result g ts ps ws))
             (length (filter (\<lambda>v. v > 10) ws)) (length ws))
   \<and> whole_percent (rain_probability (result g ts ps ws))
   \<and> whole_percent (hot_probability (result g ts ps ws))
   \<and> whole_percent (cold_probability (result g ts ps ws))
   \<and> whole_percent (wind_probability (result g ts ps ws))"
proof -
  have fields:
    "rain_probability (result g ts ps ws) = percentage (length (filter (\<lambda>v. v > 1) ps)) (length ps)"
    "hot_probability (result g ts ps ws) = percentage (length (filter (\<lambda>v. v > 35) ts)) (length ts)"
    "cold_probability (result g ts ps ws) = percentage (length (filter (\<lambda>v. v < 10) ts)) (length ts)"
    "wind_probability (result g ts ps ws) = percentage (length (filter (\<lambda>v. v > 10) ws)) (length ws)"
    by (simp_all add: result_def Let_def)
  have empty: "percentage h 0 = 0" for h by (simp add: percentage_def)
  show ?thesis
    unfolding fields
    by (simp add: percentage_nearest percentage_whole empty)
qed

theorem probabilities_are_rounded_shares_witness:
  "rain_probability (result 5 [10, 20, 30] [0, 2, 5, 1 / 2] []) = 50
   \<and> hot_probability (result 5 [10, 20, 30] [0, 2, 5, 1 / 2] []) = 0
   \<and> cold_probability (result 5 [10, 20, 30] [0, 2, 5, 1 / 2] []) = 0
   \<and> wind_probability (result 5 [10, 20, 30] [0, 2, 5, 1 / 2] []) = 0"
  using probabilities_are_rounded_shares [of "[0, 2, 5, 1 / 2]" 5 "[10, 20, 30]" "[]"]
  by (simp add: result_def Let_def percentage_def Math_round_def)

section \<open>The trend\<close>

lemma index_variance_pos:
  assumes "2 \<le> n"
  shows "0 < index_variance n"
proof -
  let ?sq = "map (\<lambda>i. (real i - index_mean n) ^ 2) [0..<n]"
  have nonneg: "\<forall>x \<in> set ?sq. 0 \<le> x" by auto
  have ge: "0 \<le> sum_list ?sq" by (rule sum_list_nonneg) auto
  have "sum_list ?sq \<noteq> 0"
  proof
    assume "sum_list ?sq = 0"
    with nonneg have zero: "\<forall>x \<in> set ?sq. x = 0"
      using sum_list_nonneg_eq_0_iff [of ?sq] by blast
    have z: "(real i - index_mean n) ^ 2 = 0" if "i \<in> set [0..<n]" for i
    proof -
      have "(real i - index_mean n) ^ 2 \<in> set ?sq"
        unfolding set_map using that by (rule imageI)
      with zero show ?thesis by blast
    qed
    have m0: "0 \<in> set [0..<n]" and m1: "1 \<in> set [0..<n]" using assms by auto
    have "(real 0 - index_mean n) ^ 2 = 0" and "(real 1 - index_mean n) ^ 2 = 0"
      using z [OF m0] z [OF m1] by blast+
    then show False by simp
  qed
  with ge show ?thesis by (simp add: index_variance_def)
qed

lemma sum_list_linear:
  "sum_list (map (\<lambda>i. a + real i * d) [0..<n]) = real n * a + d * sum_list (map real [0..<n])"
  by (induction n) (simp_all add: algebra_simps)

lemma ols_slope_linear:
  assumes "2 \<le> n"
  shows "ols_slope (linear_sequence a d n) = d"
proof -
  let ?ys = "linear_sequence a d n"
  have len: "length ?ys = n" by (simp add: linear_sequence_def)
  have n0: "real n \<noteq> 0" using assms by simp
  have "sum_list ?ys / real n = (real n * a + d * sum_list (map real [0..<n])) / real n"
    by (simp add: linear_sequence_def sum_list_linear)
  also have "\<dots> = a + d * index_mean n"
    using n0 by (simp add: index_mean_def field_simps)
  finally have ybar: "sum_list ?ys / real n = a + d * index_mean n" .
  have terms: "map (\<lambda>i. (real i - index_mean n) * (?ys ! i - (a + d * index_mean n))) [0..<n]
        = map (\<lambda>i. d * (real i - index_mean n) ^ 2) [0..<n]"
    by (rule map_cong) (simp_all add: linear_sequence_def power2_eq_square algebra_simps)
  have "sum_list (map (\<lambda>i. (real i - index_mean n) * (?ys ! i - (a + d * index_mean n))) [0..<n])
        = sum_list (map (\<lambda>i. d * (real i - index_mean n) ^ 2) [0..<n])"
    by (simp only: terms)
  also have "\<dots> = d * index_variance n"
    by (simp add: index_variance_def sum_list_const_mult)
  finally have "sum_list (map (\<lambda>i. (real i - index_mean n) * (?ys ! i - (a + d * index_mean n))) [0..<n])
        = d * index_variance n" .
  moreover have "index_variance n \<noteq> 0" using index_variance_pos [OF assms] by simp
  ultimately show ?thesis
    by (simp add: ols_slope_def Let_def len ybar)
qed

subsection \<open>Rounding\<close>

lemma floor_log2_eq:
  assumes "0 < x" and "2 powi k \<le> x" and "x < 2 powi (k + 1)"
  shows "\<lfloor>log 2 x\<rfloor> = k"
proof -
  have "(2::real) powr real_of_int k = 2 powi k"
    by (simp add: powr_real_of_int')
  moreover have "(2::real) powr (real_of_int k + 1) = 2 powi (k + 1)"
    using powr_real_of_int' [of 2 "k + 1"] by simp
  ultimately have "2 powr real_of_int k \<le> x \<and> x < 2 powr (real_of_int k + 1)"
    using assms by simp
  then show ?thesis
    using floor_log_eq_powr_iff [of x 2 k] assms(1) by simp
qed

lemma floor_log2_bounds:
  assumes "0 < x"
  shows "2 powi \<lfloor>log 2 x\<rfloor> \<le> x" and "x < 2 powi (\<lfloor>log 2 x\<rfloor> + 1)"
proof -
  have "2 powr real_of_int \<lfloor>log 2 x\<rfloor> \<le> x \<and> x < 2 powr (real_of_int \<lfloor>log 2 x\<rfloor> + 1)"
    using floor_log_eq_powr_iff [of x 2 "\<lfloor>log 2 x\<rfloor>"] assms by simp
  moreover have "(2::real) powr real_of_int \<lfloor>log 2 x\<rfloor> = 2 powi \<lfloor>log 2 x\<rfloor>"
    by (simp add: powr_real_of_int')
  moreover have "(2::real) powr (real_of_int \<lfloor>log 2 x\<rfloor> + 1) = 2 powi (\<lfloor>log 2 x\<rfloor> + 1)"
    using powr_real_of_int' [of 2 "\<lfloor>log 2 x\<rfloor> + 1"] by simp
  ultimately show "2 powi \<lfloor>log 2 x\<rfloor> \<le> x" and "x < 2 powi (\<lfloor>log 2 x\<rfloor> + 1)"
    by simp_all
qed

lemma round_half_even_of_int: "round_half_even (of_int z) = z"
  by (simp add: round_half_even_def)

lemma representable_dyadic:
  assumes x: "x = of_int m * 2 powi e" and m: "\<bar>m\<bar> < 2 ^ 53" and e: "- 1074 \<le> e"
    and big: "\<bar>x\<bar> < 2 ^ 1024"
  shows "representable x"
proof (cases "x = 0")
  case True
  then show ?thesis by (simp add: representable_def binary64_def)
next
  case False
  define k where "k = \<lfloor>log 2 \<bar>x\<bar>\<rfloor>"
  define u where "u = ulp_exponent x"
  have pos: "0 < \<bar>x\<bar>" using False by simp
  have "2 powi k \<le> \<bar>x\<bar>" unfolding k_def using floor_log2_bounds(1) [OF pos] .
  also have "\<bar>x\<bar> = real_of_int \<bar>m\<bar> * 2 powi e" by (simp add: x abs_mult)
  also have "\<dots> < 2 ^ 53 * 2 powi e"
  proof -
    have "real_of_int \<bar>m\<bar> < 2 ^ 53" using m by (metis of_int_less_iff of_int_numeral of_int_power)
    then show ?thesis by (simp add: mult_strict_right_mono)
  qed
  also have "\<dots> = 2 powi (53 + e)" by (simp add: power_int_add)
  finally have "(2::real) powi k < 2 powi (53 + e)" .
  then have "k < 53 + e"
    by (smt (verit) power_int_increasing)
  then have ue: "u \<le> e" using e by (simp add: u_def ulp_exponent_def k_def)
  define z where "z = m * 2 ^ nat (e - u)"
  have "(2::real) powi e = 2 powi (e - u) * 2 powi u"
    by (simp flip: power_int_add)
  also have "(2::real) powi (e - u) = 2 ^ nat (e - u)"
    using ue by (simp add: power_int_nonneg_exp)
  finally have split: "(2::real) powi e = 2 ^ nat (e - u) * 2 powi u" .
  have xz: "x = of_int z * 2 powi u"
    by (simp add: x split z_def)
  have quot: "x / 2 powi u = of_int z"
    by (simp add: xz)
  have r: "real_of_int (round_half_even (x / 2 powi ulp_exponent x)) * 2 powi ulp_exponent x = x"
    unfolding u_def [symmetric] quot round_half_even_of_int by (rule xz [symmetric])
  show ?thesis
    unfolding representable_def binary64_def Let_def r
    using False big by simp
qed

lemma quarter_representable:
  assumes "of_int \<lfloor>4 * x\<rfloor> = 4 * x" and "\<bar>x\<bar> < 2 ^ 50"
  shows "representable x"
proof (rule representable_dyadic [where m = "\<lfloor>4 * x\<rfloor>" and e = "- 2"])
  have "x = (4 * x) / 4" by simp
  also have "\<dots> = real_of_int \<lfloor>4 * x\<rfloor> / 4" by (simp only: assms(1))
  finally show "x = real_of_int \<lfloor>4 * x\<rfloor> * 2 powi - 2"
    by (simp add: power_int_minus)
  have "\<bar>4 * x\<bar> < 2 ^ 52" using assms(2) by simp
  then have "\<bar>real_of_int \<lfloor>4 * x\<rfloor>\<bar> < 2 ^ 52" by (simp only: assms(1))
  then have "\<bar>\<lfloor>4 * x\<rfloor>\<bar> < 2 ^ 52"
    by (metis of_int_abs of_int_less_iff of_int_numeral of_int_power)
  then show "\<bar>\<lfloor>4 * x\<rfloor>\<bar> < 2 ^ 53" by simp
  show "- 1074 \<le> (- 2 :: int)" by simp
  show "\<bar>x\<bar> < 2 ^ 1024"
  proof -
    have "(2::real) ^ 50 \<le> 2 ^ 1024" by (rule power_increasing) simp_all
    with assms(2) show ?thesis by linarith
  qed
qed


lemma binary64_eval:
  assumes lo: "2 powi k \<le> \<bar>x\<bar>" and hi: "\<bar>x\<bar> < 2 powi (k + 1)" and k: "- 1022 \<le> k"
    and m: "round_half_even (x / 2 powi (k - 52)) = m"
    and c: "c = of_int m * 2 powi (k - 52)" and fin: "\<bar>c\<bar> < 2 ^ 1024"
  shows "binary64 x = Fin c"
proof -
  have "(0::real) < 2 powi k" by simp
  with lo have pos: "0 < \<bar>x\<bar>" by linarith
  then have x0: "x \<noteq> 0" by simp
  have "\<lfloor>log 2 \<bar>x\<bar>\<rfloor> = k" using pos lo hi by (rule floor_log2_eq)
  then have u: "ulp_exponent x = k - 52" using k by (simp add: ulp_exponent_def)
  show ?thesis
    unfolding binary64_def Let_def u m c [symmetric]
    using x0 fin by simp
qed

lemma fl_add_eval: "binary64 (a + b) = Fin c \<Longrightarrow> fl_add (Fin a) (Fin b) = Fin c"
  by simp

lemma fl_sub_eval: "binary64 (a - b) = Fin c \<Longrightarrow> fl_sub (Fin a) (Fin b) = Fin c"
  by simp

lemma fl_mul_eval: "binary64 (a * b) = Fin c \<Longrightarrow> fl_mul (Fin a) (Fin b) = Fin c"
  by simp

lemma fl_div_eval: "binary64 (a / b) = Fin c \<Longrightarrow> b \<noteq> 0 \<Longrightarrow> fl_div (Fin a) (Fin b) = Fin c"
  by simp

lemma binary64_zero: "binary64 0 = Fin 0"
  by (simp add: binary64_def)

lemma binary64_small:
  "binary64 1 = Fin 1" "binary64 (1 / 2) = Fin (1 / 2)" "binary64 (- (1 / 2)) = Fin (- (1 / 2))"
  "binary64 (1 / 4) = Fin (1 / 4)"
  using quarter_representable [of 1] quarter_representable [of "1 / 2"]
    quarter_representable [of "- (1 / 2)"] quarter_representable [of "1 / 4"]
  by (simp_all add: representable_def)

lemma binary64_2_1023: "binary64 (2 ^ 1023) = Fin (2 ^ 1023)"
proof -
  have "representable (2 ^ 1023)"
    by (rule representable_dyadic [where m = "2 ^ 52" and e = 971]) simp_all
  then show ?thesis by (simp add: representable_def)
qed

lemma binary64_2_1024: "binary64 (2 ^ 1024) = PosInf"
proof -
  have "\<lfloor>log 2 \<bar>2 ^ 1024 :: real\<bar>\<rfloor> = 1024"
    by (rule floor_log2_eq) simp_all
  then have u: "ulp_exponent (2 ^ 1024) = 972"
    by (simp add: ulp_exponent_def)
  have q: "(2 ^ 1024 :: real) / 2 powi 972 = of_int (2 ^ 52)"
    by simp
  show ?thesis
    unfolding binary64_def Let_def u q round_half_even_of_int
    by (simp add: js_sign_inf_def)
qed

subsection \<open>Exact runs\<close>

lemma partial_sums_representable:
  "list_all representable (partial_sums ys) \<longleftrightarrow> (\<forall>k \<le> length ys. representable (sum_list (take k ys)))"
  by (auto simp: partial_sums_def list_all_iff less_Suc_eq_le)

lemma foldl_fl_add:
  assumes "\<forall>k \<le> length ys. representable (sum_list (take k ys))"
  shows "foldl fl_add (Fin 0) (map Fin ys) = Fin (sum_list ys)"
  using assms
proof (induction ys rule: rev_induct)
  case Nil
  then show ?case by simp
next
  case (snoc y ys)
  have "\<forall>k \<le> length ys. representable (sum_list (take k ys))"
  proof (intro allI impI)
    fix k assume k: "k \<le> length ys"
    then have "k \<le> length (ys @ [y])" by simp
    with snoc.prems have "representable (sum_list (take k (ys @ [y])))" by blast
    moreover have "take k (ys @ [y]) = take k ys" using k by simp
    ultimately show "representable (sum_list (take k ys))" by (simp only:)
  qed
  then have ih: "foldl fl_add (Fin 0) (map Fin ys) = Fin (sum_list ys)" by (rule snoc.IH)
  have "representable (sum_list (take (length (ys @ [y])) (ys @ [y])))"
    using snoc.prems by blast
  then have "binary64 (sum_list ys + y) = Fin (sum_list ys + y)"
    by (simp add: representable_def)
  with ih show ?case by simp
qed

lemma exact_in_binary64_D:
  assumes "exact_in_binary64 xs"
  defines "n \<equiv> length xs"
  defines "ybar \<equiv> sum_list xs / real n"
  shows "\<forall>k \<le> n. representable (sum_list (take k (map real [0..<n])))"
    and "representable (index_mean n)"
    and "\<forall>k \<le> n. representable (sum_list (take k xs))"
    and "representable ybar"
    and "\<forall>i < n. representable (real i - index_mean n)"
    and "\<forall>i < n. representable (xs ! i - ybar)"
    and "\<forall>i < n. representable ((real i - index_mean n) * (xs ! i - ybar))"
    and "\<forall>i < n. representable ((real i - index_mean n) * (real i - index_mean n))"
    and "\<forall>k \<le> n. representable
           (sum_list (take k (map (\<lambda>i. (real i - index_mean n) * (xs ! i - ybar)) [0..<n])))"
    and "\<forall>k \<le> n. representable
           (sum_list (take k (map (\<lambda>i. (real i - index_mean n) * (real i - index_mean n)) [0..<n])))"
    and "representable (ols_slope xs)"
  using assms(1)
  unfolding exact_in_binary64_def trend_intermediates_def Let_def n_def ybar_def
  by (simp_all add: partial_sums_representable) (simp_all add: list_all_iff)


lemma take_map_upt: "j \<le> n \<Longrightarrow> take j (map f [0..<n]) = map f [0..<j]"
  by (simp add: take_map)

lemma foldl_trend_step:
  assumes len: "length xs = n"
    and dx: "\<forall>i < n. representable (real i - mx)"
    and dy: "\<forall>i < n. representable (xs ! i - my)"
    and pxy: "\<forall>i < n. representable ((real i - mx) * (xs ! i - my))"
    and pxx: "\<forall>i < n. representable ((real i - mx) * (real i - mx))"
    and sxy: "\<forall>j \<le> n. representable
                (sum_list (take j (map (\<lambda>i. (real i - mx) * (xs ! i - my)) [0..<n])))"
    and sxx: "\<forall>j \<le> n. representable
                (sum_list (take j (map (\<lambda>i. (real i - mx) * (real i - mx)) [0..<n])))"
  shows "k \<le> n \<Longrightarrow>
         foldl (trend_step (map (\<lambda>i. Fin (real i)) [0..<n]) (map Fin xs) (Fin mx) (Fin my))
               (Fin 0, Fin 0) [0..<k]
         = (Fin (sum_list (map (\<lambda>i. (real i - mx) * (xs ! i - my)) [0..<k])),
            Fin (sum_list (map (\<lambda>i. (real i - mx) * (real i - mx)) [0..<k])))"
proof (induction k)
  case 0
  then show ?case by simp
next
  case (Suc k)
  then have k: "k < n" and ih:
    "foldl (trend_step (map (\<lambda>i. Fin (real i)) [0..<n]) (map Fin xs) (Fin mx) (Fin my))
           (Fin 0, Fin 0) [0..<k]
     = (Fin (sum_list (map (\<lambda>i. (real i - mx) * (xs ! i - my)) [0..<k])),
        Fin (sum_list (map (\<lambda>i. (real i - mx) * (real i - mx)) [0..<k])))"
    by simp_all
  have idx: "map (\<lambda>i. Fin (real i)) [0..<n] ! k = Fin (real k)" using k by simp
  have val: "map Fin xs ! k = Fin (xs ! k)" using k len by simp
  have b1: "binary64 (real k - mx) = Fin (real k - mx)"
    using dx k by (simp add: representable_def)
  have b2: "binary64 (xs ! k - my) = Fin (xs ! k - my)"
    using dy k by (simp add: representable_def)
  have b3: "binary64 ((real k - mx) * (xs ! k - my)) = Fin ((real k - mx) * (xs ! k - my))"
    using pxy k by (simp add: representable_def)
  have b4: "binary64 ((real k - mx) * (real k - mx)) = Fin ((real k - mx) * (real k - mx))"
    using pxx k by (simp add: representable_def)
  have "representable (sum_list (take (Suc k) (map (\<lambda>i. (real i - mx) * (xs ! i - my)) [0..<n])))"
    using sxy Suc.prems by blast
  then have b5: "binary64 (sum_list (map (\<lambda>i. (real i - mx) * (xs ! i - my)) [0..<k])
                          + (real k - mx) * (xs ! k - my))
               = Fin (sum_list (map (\<lambda>i. (real i - mx) * (xs ! i - my)) [0..<k])
                          + (real k - mx) * (xs ! k - my))"
    using Suc.prems by (simp add: representable_def take_map_upt)
  have "representable (sum_list (take (Suc k) (map (\<lambda>i. (real i - mx) * (real i - mx)) [0..<n])))"
    using sxx Suc.prems by blast
  then have b6: "binary64 (sum_list (map (\<lambda>i. (real i - mx) * (real i - mx)) [0..<k])
                          + (real k - mx) * (real k - mx))
               = Fin (sum_list (map (\<lambda>i. (real i - mx) * (real i - mx)) [0..<k])
                          + (real k - mx) * (real k - mx))"
    using Suc.prems by (simp add: representable_def take_map_upt)
  let ?step = "trend_step (map (\<lambda>i. Fin (real i)) [0..<n]) (map Fin xs) (Fin mx) (Fin my)"
  have step: "?step (Fin s, Fin t) k
              = (binary64 (s + (real k - mx) * (xs ! k - my)),
                 binary64 (t + (real k - mx) * (real k - mx)))" for s t
    unfolding trend_step_def idx val by (simp add: b1 b2 b3 b4)
  have "foldl ?step (Fin 0, Fin 0) [0..<Suc k] = ?step (foldl ?step (Fin 0, Fin 0) [0..<k]) k"
    by simp
  then show ?case
    unfolding ih step b5 b6 by simp
qed

lemma calculateTrend_exact_run:
  assumes n: "2 \<le> length xs" and ex: "exact_in_binary64 xs"
  shows "calculateTrend (map Fin xs) = Fin (ols_slope xs)"
proof -
  define n where "n = length xs"
  define ybar where "ybar = sum_list xs / real n"
  note E = exact_in_binary64_D [OF ex, folded n_def, folded ybar_def]
  have n0: "real n \<noteq> 0" using n by (auto simp: n_def)
  have sumx: "foldl fl_add (Fin 0) (map (\<lambda>i. Fin (real i)) [0..<n]) = Fin (sum_list (map real [0..<n]))"
    using foldl_fl_add [of "map real [0..<n]"] E(1) by (simp add: comp_def)
  have meanX: "binary64 (sum_list (map real [0..<n]) / real n) = Fin (index_mean n)"
    using E(2) n0 by (simp add: representable_def index_mean_def)
  have sumy: "foldl fl_add (Fin 0) (map Fin xs) = Fin (sum_list xs)"
    using foldl_fl_add [of xs] E(3) by (simp add: n_def)
  have meanY: "binary64 (sum_list xs / real n) = Fin ybar"
    using E(4) n0 by (simp add: representable_def ybar_def)
  have loop: "foldl (trend_step (map (\<lambda>i. Fin (real i)) [0..<n]) (map Fin xs)
                       (Fin (index_mean n)) (Fin ybar)) (Fin 0, Fin 0) [0..<n]
      = (Fin (sum_list (map (\<lambda>i. (real i - index_mean n) * (xs ! i - ybar)) [0..<n])),
         Fin (sum_list (map (\<lambda>i. (real i - index_mean n) * (real i - index_mean n)) [0..<n])))"
    by (rule foldl_trend_step [OF n_def [symmetric] E(5) E(6) E(7) E(8) E(9) E(10)]) simp
  have den: "sum_list (map (\<lambda>i. (real i - index_mean n) * (real i - index_mean n)) [0..<n])
             = index_variance n"
    by (simp add: index_variance_def power2_eq_square)
  have pos: "0 < index_variance n" using n by (simp add: n_def index_variance_pos)
  have quot: "sum_list (map (\<lambda>i. (real i - index_mean n) * (xs ! i - ybar)) [0..<n]) / index_variance n
              = ols_slope xs"
    by (simp add: ols_slope_def Let_def n_def ybar_def)
  have final: "binary64 (ols_slope xs) = Fin (ols_slope xs)"
    using E(11) by (simp add: representable_def)
  have "\<not> length (map Fin xs) < 2" using n by simp
  then show ?thesis
    unfolding calculateTrend_def Let_def
    using pos
    by (simp add: n_def [symmetric] sumx meanX sumy meanY loop den quot final)
qed


subsection \<open>Two runs that are not exact\<close>

lemma overflow_trend: "calculateTrend [Fin (2 ^ 1023), Fin (2 ^ 1023)] = NaN"
proof -
  have up: "[0..<2] = [0, 1]" by (simp add: eval_nat_numeral)
  have s: "binary64 (2 * 2 ^ 1023) = PosInf"
    using binary64_2_1024 by simp
  have z: "binary64 (2 ^ 1023) = Fin (2 ^ 1023)" by (rule binary64_2_1023)
  show ?thesis
    unfolding calculateTrend_def Let_def
    apply (simp only: list.size length_Cons up)
    apply (simp add: trend_step_def binary64_small binary64_zero z s js_sign_inf_def
        js_sub_def del: power_numeral)
    done
qed


lemma rounded_trend:
  "calculateTrend
     [Fin (- (3602879701896397 / 36028797018963968)), Fin 0,
      Fin (3602879701896397 / 36028797018963968), Fin (3602879701896397 / 18014398509481984)]
   = Fin (7205759403792795 / 72057594037927936)"
proof -
  have s0: "fl_add (Fin 0) (Fin 0) = Fin 0"
    by (rule fl_add_eval) (simp_all add: binary64_zero)
  have s1: "fl_add (Fin 0) (Fin 1) = Fin 1"
    by (rule fl_add_eval, rule binary64_eval [where k = "0" and m = "4503599627370496"])
      (simp_all add: round_half_even_def)
  have s2: "fl_add (Fin 1) (Fin 2) = Fin 3"
    by (rule fl_add_eval, rule binary64_eval [where k = "1" and m = "6755399441055744"])
      (simp_all add: round_half_even_def)
  have s3: "fl_add (Fin 3) (Fin 3) = Fin 6"
    by (rule fl_add_eval, rule binary64_eval [where k = "2" and m = "6755399441055744"])
      (simp_all add: round_half_even_def)
  have s4: "fl_div (Fin 6) (Fin 4) = Fin (3 / 2)"
    by (rule fl_div_eval, rule binary64_eval [where k = "0" and m = "6755399441055744"])
      (simp_all add: round_half_even_def)
  have s5: "fl_add (Fin 0)
               (Fin (- (3602879701896397 / 36028797018963968)))
             = Fin (- (3602879701896397 / 36028797018963968))"
    by (rule fl_add_eval, rule binary64_eval [where k = "- 4" and m = "- 7205759403792794"])
      (simp_all add: round_half_even_def)
  have s6: "fl_add (Fin (- (3602879701896397 / 36028797018963968)))
               (Fin 0)
             = Fin (- (3602879701896397 / 36028797018963968))"
    by (rule fl_add_eval, rule binary64_eval [where k = "- 4" and m = "- 7205759403792794"])
      (simp_all add: round_half_even_def)
  have s7: "fl_add (Fin (- (3602879701896397 / 36028797018963968)))
               (Fin (3602879701896397 / 36028797018963968))
             = Fin 0"
    by (rule fl_add_eval) (simp_all add: binary64_zero)
  have s8: "fl_add (Fin 0)
               (Fin (3602879701896397 / 18014398509481984))
             = Fin (3602879701896397 / 18014398509481984)"
    by (rule fl_add_eval, rule binary64_eval [where k = "- 3" and m = "7205759403792794"])
      (simp_all add: round_half_even_def)
  have s9: "fl_div (Fin (3602879701896397 / 18014398509481984))
               (Fin 4)
             = Fin (3602879701896397 / 72057594037927936)"
    by (rule fl_div_eval, rule binary64_eval [where k = "- 5" and m = "7205759403792794"])
      (simp_all add: round_half_even_def)
  have s10: "fl_sub (Fin 0) (Fin (3 / 2)) = Fin (- (3 / 2))"
    by (rule fl_sub_eval, rule binary64_eval [where k = "0" and m = "- 6755399441055744"])
      (simp_all add: round_half_even_def)
  have s11: "fl_sub (Fin (- (3602879701896397 / 36028797018963968)))
               (Fin (3602879701896397 / 72057594037927936))
             = Fin (- (1351079888211149 / 9007199254740992))"
    by (rule fl_sub_eval, rule binary64_eval [where k = "- 3" and m = "- 5404319552844596"])
      (simp_all add: round_half_even_def)
  have s12: "fl_mul (Fin (- (3 / 2)))
               (Fin (- (1351079888211149 / 9007199254740992)))
             = Fin (4053239664633447 / 18014398509481984)"
    by (rule fl_mul_eval, rule binary64_eval [where k = "- 3" and m = "8106479329266894"])
      (simp_all add: round_half_even_def)
  have s13: "fl_add (Fin 0)
               (Fin (4053239664633447 / 18014398509481984))
             = Fin (4053239664633447 / 18014398509481984)"
    by (rule fl_add_eval, rule binary64_eval [where k = "- 3" and m = "8106479329266894"])
      (simp_all add: round_half_even_def)
  have s14: "fl_mul (Fin (- (3 / 2))) (Fin (- (3 / 2))) = Fin (9 / 4)"
    by (rule fl_mul_eval, rule binary64_eval [where k = "1" and m = "5066549580791808"])
      (simp_all add: round_half_even_def)
  have s15: "fl_add (Fin 0) (Fin (9 / 4)) = Fin (9 / 4)"
    by (rule fl_add_eval, rule binary64_eval [where k = "1" and m = "5066549580791808"])
      (simp_all add: round_half_even_def)
  have s16: "fl_sub (Fin 1) (Fin (3 / 2)) = Fin (- (1 / 2))"
    by (rule fl_sub_eval, rule binary64_eval [where k = "- 1" and m = "- 4503599627370496"])
      (simp_all add: round_half_even_def)
  have s17: "fl_sub (Fin 0)
               (Fin (3602879701896397 / 72057594037927936))
             = Fin (- (3602879701896397 / 72057594037927936))"
    by (rule fl_sub_eval, rule binary64_eval [where k = "- 5" and m = "- 7205759403792794"])
      (simp_all add: round_half_even_def)
  have s18: "fl_mul (Fin (- (1 / 2)))
               (Fin (- (3602879701896397 / 72057594037927936)))
             = Fin (3602879701896397 / 144115188075855872)"
    by (rule fl_mul_eval, rule binary64_eval [where k = "- 6" and m = "7205759403792794"])
      (simp_all add: round_half_even_def)
  have s19: "fl_add (Fin (4053239664633447 / 18014398509481984))
               (Fin (3602879701896397 / 144115188075855872))
             = Fin (4503599627370497 / 18014398509481984)"
    by (rule fl_add_eval, rule binary64_eval [where k = "- 2" and m = "4503599627370497"])
      (simp_all add: round_half_even_def)
  have s20: "fl_mul (Fin (- (1 / 2))) (Fin (- (1 / 2))) = Fin (1 / 4)"
    by (rule fl_mul_eval, rule binary64_eval [where k = "- 2" and m = "4503599627370496"])
      (simp_all add: round_half_even_def)
  have s21: "fl_add (Fin (9 / 4)) (Fin (1 / 4)) = Fin (5 / 2)"
    by (rule fl_add_eval, rule binary64_eval [where k = "1" and m = "5629499534213120"])
      (simp_all add: round_half_even_def)
  have s22: "fl_sub (Fin 2) (Fin (3 / 2)) = Fin (1 / 2)"
    by (rule fl_sub_eval, rule binary64_eval [where k = "- 1" and m = "4503599627370496"])
      (simp_all add: round_half_even_def)
  have s23: "fl_sub (Fin (3602879701896397 / 36028797018963968))
               (Fin (3602879701896397 / 72057594037927936))
             = Fin (3602879701896397 / 72057594037927936)"
    by (rule fl_sub_eval, rule binary64_eval [where k = "- 5" and m = "7205759403792794"])
      (simp_all add: round_half_even_def)
  have s24: "fl_mul (Fin (1 / 2))
               (Fin (3602879701896397 / 72057594037927936))
             = Fin (3602879701896397 / 144115188075855872)"
    by (rule fl_mul_eval, rule binary64_eval [where k = "- 6" and m = "7205759403792794"])
      (simp_all add: round_half_even_def)
  have s25: "fl_add (Fin (4503599627370497 / 18014398509481984))
               (Fin (3602879701896397 / 144115188075855872))
             = Fin (4953959590107547 / 18014398509481984)"
    by (rule fl_add_eval, rule binary64_eval [where k = "- 2" and m = "4953959590107547"])
      (simp_all add: round_half_even_def)
  have s26: "fl_mul (Fin (1 / 2)) (Fin (1 / 2)) = Fin (1 / 4)"
    by (rule fl_mul_eval, rule binary64_eval [where k = "- 2" and m = "4503599627370496"])
      (simp_all add: round_half_even_def)
  have s27: "fl_add (Fin (5 / 2)) (Fin (1 / 4)) = Fin (11 / 4)"
    by (rule fl_add_eval, rule binary64_eval [where k = "1" and m = "6192449487634432"])
      (simp_all add: round_half_even_def)
  have s28: "fl_sub (Fin 3) (Fin (3 / 2)) = Fin (3 / 2)"
    by (rule fl_sub_eval, rule binary64_eval [where k = "0" and m = "6755399441055744"])
      (simp_all add: round_half_even_def)
  have s29: "fl_sub (Fin (3602879701896397 / 18014398509481984))
               (Fin (3602879701896397 / 72057594037927936))
             = Fin (1351079888211149 / 9007199254740992)"
    by (rule fl_sub_eval, rule binary64_eval [where k = "- 3" and m = "5404319552844596"])
      (simp_all add: round_half_even_def)
  have s30: "fl_mul (Fin (3 / 2))
               (Fin (1351079888211149 / 9007199254740992))
             = Fin (4053239664633447 / 18014398509481984)"
    by (rule fl_mul_eval, rule binary64_eval [where k = "- 3" and m = "8106479329266894"])
      (simp_all add: round_half_even_def)
  have s31: "fl_add (Fin (4953959590107547 / 18014398509481984))
               (Fin (4053239664633447 / 18014398509481984))
             = Fin (4503599627370497 / 9007199254740992)"
    by (rule fl_add_eval, rule binary64_eval [where k = "- 1" and m = "4503599627370497"])
      (simp_all add: round_half_even_def)
  have s32: "fl_mul (Fin (3 / 2)) (Fin (3 / 2)) = Fin (9 / 4)"
    by (rule fl_mul_eval, rule binary64_eval [where k = "1" and m = "5066549580791808"])
      (simp_all add: round_half_even_def)
  have s33: "fl_add (Fin (11 / 4)) (Fin (9 / 4)) = Fin 5"
    by (rule fl_add_eval, rule binary64_eval [where k = "2" and m = "5629499534213120"])
      (simp_all add: round_half_even_def)
  have s34: "fl_div (Fin (4503599627370497 / 9007199254740992))
               (Fin 5)
             = Fin (7205759403792795 / 72057594037927936)"
    by (rule fl_div_eval, rule binary64_eval [where k = "- 4" and m = "7205759403792795"])
      (simp_all add: round_half_even_def)
  have up: "[0..<4] = [0, 1, 2, 3]" by (simp add: eval_nat_numeral)
  show ?thesis
    unfolding calculateTrend_def Let_def
    apply (simp add: trend_step_def up
        del: fl_add.simps fl_sub.simps fl_mul.simps fl_div.simps)
    apply (simp only: s0 s1 s2 s3 s4 s5 s6 s7 s8 s9 s10 s11 s12 s13 s14 s15 s16 s17 s18 s19 s20 s21 s22 s23 s24 s25 s26 s27 s28 s29 s30 s31 s32 s33 s34)
    apply simp
    done
qed



lemma index_variance_single: "index_variance (Suc 0) = 0"
  by (simp add: index_variance_def index_mean_def)

lemma linear_sequence_example: "linear_sequence 3 2 4 = [3, 5, 7, 9]"
  by (simp add: linear_sequence_def eval_nat_numeral)

lemma exact_example: "exact_in_binary64 [3, 5, 7, 9]"
  by (simp add: exact_in_binary64_def trend_intermediates_def partial_sums_def Let_def
        index_mean_def ols_slope_def index_variance_def eval_nat_numeral quarter_representable)

lemma ols_example: "ols_slope [3, 5, 7, 9] = 2"
  by (simp add: ols_slope_def Let_def index_mean_def index_variance_def eval_nat_numeral)


section \<open>Empty samples\<close>

text \<open>
  C8. If all pooled samples are empty (every fetch succeeds and no series holds a value
  other than the sentinel), the call does not fail: the answer is a 200 whose result has
  \<open>average_temp\<close> 20, \<open>average_precip\<close> 0, both standard deviations 0, the four
  probabilities 0 and \<open>data_points\<close> 0.
\<close>

theorem empty_samples_give_defaults:
  assumes "req_method req \<noteq> ''OPTIONS''" and "req_json req = Inr f"
    and "\<forall>c \<in> set (fst (handler e req)). \<exists>r q.
            fetch e c = FetchResolves r \<and> ok r \<and> json r = Inr (Data q)
            \<and> (sentinel_filter (T2M q) = [] \<and> sentinel_filter (PRECTOTCORR q) = []
               \<and> sentinel_filter (WS10M q) = [])"
  shows "\<exists>p. snd (handler e req) = \<lparr> resp_status = 200, resp_body = ResultBody p \<rparr>
           \<and> average_temp p = 20 \<and> average_precip p = 0
           \<and> temp_std_dev p = 0 \<and> precip_std_dev p = 0
           \<and> rain_probability p = 0 \<and> hot_probability p = 0
           \<and> cold_probability p = 0 \<and> wind_probability p = 0
           \<and> data_points p = 0"
proof -
  let ?P = "\<lambda>q. sentinel_filter (T2M q) = [] \<and> sentinel_filter (PRECTOTCORR q) = []
               \<and> sentinel_filter (WS10M q) = []"
  obtain qs where qs: "map (fetchLocationData e) (fst (handler e req)) = map Inr (map Data qs)"
    and empty: "\<forall>q \<in> set qs. ?P q"
    using all_resolve_Data [where P = ?P, OF assms(3)] by blast
  from empty have "pool (map Data qs) ([], [], []) = Inr ([], [], [])"
    by (simp add: pool_Data)
  moreover have "Promise_all (map (fetchLocationData e) (fst (handler e req))) = Inr (map Data qs)"
    by (simp only: qs Promise_all_Inr)
  ultimately have "snd (handler e req) =
      \<lparr> resp_status = 200, resp_body = ResultBody (result 5 [] [] []) \<rparr>"
    by (simp add: handler_response [OF assms(1,2)])
  then show ?thesis
    by (simp add: result_no_samples)
qed

theorem empty_samples_give_defaults_witness:
  "req_method (new_york []) \<noteq> ''OPTIONS''
   \<and> sentinel_filter (T2M no_data) = []
   \<and> snd (handler (platform (archive no_data)) (new_york [])) =
       \<lparr> resp_status = 200, resp_body = ResultBody (result 5 [] [] []) \<rparr>
   \<and> average_temp (result 5 [] [] []) = 20
   \<and> data_points (result 5 [] [] []) = 0"
  using empty_samples_give_defaults
          [where req = "new_york []" and e = "platform (archive no_data)"
             and f = "\<lparr> lat = JNum (Fin 40), lon = JNum (Fin (- 74)),
                        date = JStr ''2025-06-15T00:00:00.000Z'', variables = [] \<rparr>"]
  by (simp add: new_york_fields new_york_calls platform_fetch archive_def ok_def
        no_data_samples handler_archive [OF new_york_fields] eval_nat_numeral result_no_samples)

section \<open>The requested variables\<close>

text \<open>
  C9. Two requests that differ only in \<open>variables\<close> make the same calls and get the
  same answer from the same platform, and each of the five calls asks for the three
  parameters \<open>T2M\<close>, \<open>PRECTOTCORR\<close> and \<open>WS10M\<close>.
\<close>

theorem variables_ignored:
  assumes "req_method req \<noteq> ''OPTIONS''" and "req_json req = Inr f"
  shows "handler e (req\<lparr>req_json := Inr (f\<lparr>variables := vs\<rparr>)\<rparr>) = handler e req
   \<and> map (\<lambda>(la, lo, s, en, ps). ps) (fst (handler e req))
       = replicate 5 ''T2M,PRECTOTCORR,WS10M''"
  using assms
  by (simp add: handler_def gridPoints_def parameters_def Let_def eval_nat_numeral)

theorem variables_ignored_witness:
  "req_method (new_york [''temperature'']) \<noteq> ''OPTIONS''
   \<and> handler (platform (archive two_days)) (new_york [''rainfall'', ''windspeed''])
       = handler (platform (archive two_days)) (new_york [''temperature''])"
proof -
  have "(new_york [''temperature''])
          \<lparr>req_json := Inr (\<lparr> lat = JNum (Fin 40), lon = JNum (Fin (- 74)),
                 date = JStr ''2025-06-15T00:00:00.000Z'', variables = [''temperature''] \<rparr>
                 \<lparr>variables := [''rainfall'', ''windspeed'']\<rparr>)\<rparr>
        = new_york [''rainfall'', ''windspeed'']"
    by (simp add: new_york_def query_def)
  then show ?thesis
    using variables_ignored [OF new_york_fields [of "[''temperature'']"],
            where e = "platform (archive two_days)" and vs = "[''rainfall'', ''windspeed'']"]
    by (simp add: new_york_fields)
qed

section \<open>Constant fields of the result\<close>

text \<open>
  C10. In every successful answer \<open>data_years\<close> is 15 and \<open>regional_coverage\<close> is
  the string \<open>~50km radius (5 grid points)\<close>, whatever the archive supplied, an empty
  sample included.
\<close>

theorem data_years_and_coverage_constant:
  assumes "snd (handler e req) = r" and "resp_body r = ResultBody p"
  shows "data_years p = 15 \<and> regional_coverage p = ''~50km radius (5 grid points)''"
proof -
  obtain ts ps ws where "p = result 5 ts ps ws"
    using handler_success_result [OF assms] by blast
  then show ?thesis
    by (simp add: result_def Let_def show_nat_5)
qed

theorem data_years_and_coverage_constant_witness:
  "snd (handler (platform (archive no_data)) (new_york [])) =
     \<lparr> resp_status = 200, resp_body = ResultBody (result 5 [] [] []) \<rparr>
   \<and> data_points (result 5 [] [] []) = 0
   \<and> data_years (result 5 [] [] []) = 15
   \<and> regional_coverage (result 5 [] [] []) = ''~50km radius (5 grid points)''"
proof -
  have r: "snd (handler (platform (archive no_data)) (new_york [])) =
     \<lparr> resp_status = 200, resp_body = ResultBody (result 5 [] [] []) \<rparr>"
    by (simp add: handler_archive [OF new_york_fields] no_data_samples eval_nat_numeral)
  have b: "resp_body \<lparr> resp_status = 200, resp_body = ResultBody (result 5 [] [] []) \<rparr>
           = ResultBody (result 5 [] [] [])"
    by simp
  show ?thesis
    using data_years_and_coverage_constant [OF r b] r
    by (simp add: result_no_samples)
qed

end
